theory Spec2Isabelle
  imports Complex_Main
begin

section \<open>The document cache of the PromQL language server\<close>

text \<open>
  A shallow embedding of \<^verbatim>\<open>langserver/cache\<close>: the \<^verbatim>\<open>document\<close> struct and the
  methods of \<^verbatim>\<open>DocumentHandle\<close> (document.go) and the position conversions of
  position.go that go through \<^verbatim>\<open>LineStartSafe\<close>.

  Conventions of the embedding.
  \<^item> Go's \<^verbatim>\<open>int\<close> and \<^verbatim>\<open>token.Pos\<close> are \<^typ>\<open>int\<close>: the methods add and subtract
    offsets, columns and line numbers of a document of bounded size; arithmetic at the
    limits of 64 bits is not modelled.
  \<^item> \<^verbatim>\<open>float64\<close> version numbers are \<^typ>\<open>real\<close> (the protocol sends integers; NaN and
    the infinities are not modelled). The \<^verbatim>\<open>float64\<close> fields of \<^verbatim>\<open>protocol.Position\<close>
    carry integers and are \<^typ>\<open>int\<close>, so the conversions \<^verbatim>\<open>int(pos.Line)\<close> and
    \<^verbatim>\<open>float64(line)\<close> are identities.
  \<^item> A Go \<^verbatim>\<open>string\<close> or \<^verbatim>\<open>[]byte\<close> is a \<^typ>\<open>string\<close>, one \<^typ>\<open>char\<close> per byte.
  \<^item> A method returning \<^verbatim>\<open>(T, error)\<close> returns \<open>error + T\<close>; a method returning only
    \<^verbatim>\<open>error\<close> returns \<open>error option\<close> (\<open>None\<close> is \<^verbatim>\<open>nil\<close>).
  \<^item> A call has one of three outcomes: it returns, it panics, or it is suspended at a
    blocking operation (a lock that is held, a wait group that is not drained).
  \<^item> There is one document; the \<^verbatim>\<open>doc\<close> pointer of a handle is implicit.
  \<^item> Names are those of the source. Four fields are renamed, their names being taken in
    HOL or by another record: \<^verbatim>\<open>size\<close> of a file is \<open>fsize\<close>, \<^verbatim>\<open>Range\<close> of a change
    is \<open>Range'\<close>, \<^verbatim>\<open>Pos\<close> of a compiled query is \<open>QPos\<close>, and \<^verbatim>\<open>Line\<close> of a
    protocol position is \<open>PLine\<close>.
\<close>

subsection \<open>Errors, panics and outcomes\<close>

type_synonym Pos = int

type_synonym Context = nat

datatype panic =
    LineTooSmall int
  | LineTooLarge int int
  | NilDereference
  | SliceBounds

text \<open>
  \<^verbatim>\<open>LineTooSmall line\<close> and \<^verbatim>\<open>LineTooLarge line n\<close> are the two panics of
  \<^verbatim>\<open>token.File.LineStart\<close>, for a line below 1 and for a line beyond the \<open>n\<close> lines
  of the table; their values are strings. The other two are runtime errors.
\<close>

datatype code = CodeInvalidParams | CodeInternalError

datatype error =
    JsonrpcError code string
  | Canceled
  | ErrorString string
  | LineStartPanic panic
  | RuntimeError panic

text \<open>
  \<^verbatim>\<open>JsonrpcError c m\<close> is \<^verbatim>\<open>jsonrpc2.NewErrorf(c, m)\<close>; \<^verbatim>\<open>Canceled\<close> is what
  \<^verbatim>\<open>ctx.Err()\<close> gives for a cancelled context (the spec's Obsolete);
  \<^verbatim>\<open>ErrorString m\<close> is \<^verbatim>\<open>errors.New(m)\<close>; \<^verbatim>\<open>LineStartPanic r\<close> is
  \<^verbatim>\<open>fmt.Errorf("LineStart panic: %v", r)\<close> (the spec's InvalidLine).
\<close>

datatype 'a outcome = Returns 'a | Panics panic | Blocks

subsection \<open>Data model\<close>

text \<open>\<^verbatim>\<open>token.File\<close>: the base offset, the size and the table of line starts.\<close>

record File =
  base :: int
  fsize :: int
  lines :: "int list"

text \<open>\<^verbatim>\<open>token.Position\<close> and \<^verbatim>\<open>protocol.Position\<close>.\<close>

record Position =
  Filename :: string
  Offset :: int
  Line :: int
  Column :: int

record ProtocolPosition =
  PLine :: int
  Character :: int

record ProtocolRange =
  Start :: ProtocolPosition
  End :: ProtocolPosition

text \<open>
  \<^verbatim>\<open>protocol.TextDocumentContentChangeEvent\<close>: \<^verbatim>\<open>Range\<close> is a pointer, \<open>None\<close> is
  \<^verbatim>\<open>nil\<close> (an edit of the whole document).
\<close>

record TextDocumentContentChangeEvent =
  Range' :: "ProtocolRange option"
  RangeLength :: int
  Text :: string

text \<open>
  What \<^verbatim>\<open>ApplyIncrementalChanges\<close> reads of a \<^verbatim>\<open>span.Span\<close>: \<^verbatim>\<open>HasOffset()\<close>,
  \<^verbatim>\<open>Start().Offset()\<close> and \<^verbatim>\<open>End().Offset()\<close>.
\<close>

record Span =
  HasOffset :: bool
  StartOffset :: int
  EndOffset :: int

text \<open>
  What \<^verbatim>\<open>GetQuery\<close> reads of a \<^verbatim>\<open>CompiledQuery\<close>: its start \<^verbatim>\<open>Pos\<close> and the
  position range of its \<^verbatim>\<open>Ast\<close>, which is \<^verbatim>\<open>nil\<close> after a syntax error that could
  not be recovered.
\<close>

record PositionRange =
  RangeStart :: int
  RangeEnd :: int

record CompiledQuery =
  QPos :: Pos
  Ast :: "PositionRange option"

text \<open>
  A YAML sub-document (its line offset and its text) and a diagnostic (its message); the
  methods only store and return them.
\<close>

datatype YamlDoc = YamlDoc int string

datatype Diagnostic = Diagnostic string

record RWMutex =
  readers :: nat
  writer :: bool

record DocumentHandle =
  ctx :: Context

record document =
  posData :: File
  uri :: string
  languageID :: string
  version :: real
  content :: string
  mu :: RWMutex
  versionCtx :: "Context option"
  obsoleteVersion :: "Context option"
  queries :: "CompiledQuery list"
  yamls :: "YamlDoc list"
  diagnostics :: "Diagnostic list"
  compilers :: nat

text \<open>
  \<^verbatim>\<open>obsoleteVersion\<close> is the cancel function of a context: it is modelled by the context
  it cancels, \<open>None\<close> being the \<^verbatim>\<open>nil\<close> function of a document that was never set.

  The heap holds the document, the contexts that are cancelled, the next context to be
  created, and the handles on which a \<^verbatim>\<open>compile\<close> goroutine was started.
\<close>

record heap =
  doc :: document
  cancelled :: "Context set"
  nextCtx :: Context
  goroutines :: "DocumentHandle list"

subsection \<open>Contexts, the lock and the wait group\<close>

text \<open>
  \<^verbatim>\<open>context.WithCancel(parent)\<close>: a fresh context, cancelled from the start when the
  parent is. (No modelled operation cancels a parent afterwards.)
\<close>

definition WithCancel :: "Context \<Rightarrow> heap \<Rightarrow> Context \<times> heap" where
  "WithCancel parent s =
     (let c = nextCtx s in
      (c, s\<lparr>nextCtx := Suc c,
            cancelled := (if parent \<in> cancelled s then insert c (cancelled s)
                          else cancelled s)\<rparr>))"

definition RLock :: "RWMutex \<Rightarrow> RWMutex option" where
  "RLock m = (if writer m then None else Some (m\<lparr>readers := Suc (readers m)\<rparr>))"

definition RUnlock :: "RWMutex \<Rightarrow> RWMutex" where
  "RUnlock m = m\<lparr>readers := readers m - 1\<rparr>"

definition Lock :: "RWMutex \<Rightarrow> RWMutex option" where
  "Lock m = (if writer m \<or> 0 < readers m then None else Some (m\<lparr>writer := True\<rparr>))"

definition Unlock :: "RWMutex \<Rightarrow> RWMutex" where
  "Unlock m = m\<lparr>writer := False\<rparr>"

text \<open>
  \<^verbatim>\<open>d.doc.mu.RLock(); defer d.doc.mu.RUnlock()\<close> around a body that only reads: the
  call is suspended while a writer holds the lock; the deferred unlock runs however the
  body ends.
\<close>

definition RLocked :: "(heap \<Rightarrow> 'a outcome) \<Rightarrow> heap \<Rightarrow> 'a outcome \<times> heap" where
  "RLocked body s =
     (case RLock (mu (doc s)) of
        None \<Rightarrow> (Blocks, s)
      | Some m \<Rightarrow>
          (let s1 = s\<lparr>doc := (doc s)\<lparr>mu := m\<rparr>\<rparr>
           in (body s1, s1\<lparr>doc := (doc s1)\<lparr>mu := RUnlock (mu (doc s1))\<rparr>\<rparr>)))"

text \<open>\<^verbatim>\<open>d.doc.mu.Lock(); defer d.doc.mu.Unlock()\<close> around a body that may write.\<close>

definition Locked :: "(heap \<Rightarrow> 'a outcome \<times> heap) \<Rightarrow> heap \<Rightarrow> 'a outcome \<times> heap" where
  "Locked body s =
     (case Lock (mu (doc s)) of
        None \<Rightarrow> (Blocks, s)
      | Some m \<Rightarrow>
          (case body (s\<lparr>doc := (doc s)\<lparr>mu := m\<rparr>\<rparr>) of
             (r, s2) \<Rightarrow> (r, s2\<lparr>doc := (doc s2)\<lparr>mu := Unlock (mu (doc s2))\<rparr>\<rparr>)))"

text \<open>
  \<^verbatim>\<open>select { case <-d.ctx.Done(): return zero, d.ctx.Err(); default: ... }\<close>
\<close>

definition selectDone :: "DocumentHandle \<Rightarrow> heap \<Rightarrow> 'a \<Rightarrow> error + 'a" where
  "selectDone d s v = (if ctx d \<in> cancelled s then Inl Canceled else Inr v)"

subsection \<open>document.go\<close>

definition GetContext :: "DocumentHandle \<Rightarrow> Context" where
  "GetContext d = ctx d"

text \<open>
  The loop of \<^verbatim>\<open>ApplyIncrementalChanges\<close> over the local \<^verbatim>\<open>content\<close>.
  \<^verbatim>\<open>ColumnMapper.RangeSpan\<close> belongs to the vendored protocol package and is a
  parameter: it is given the URI, the content as edited so far and the range.
  \<^verbatim>\<open>*change.Range\<close> dereferences the pointer before the call. The slices
  \<^verbatim>\<open>content[:start]\<close> and \<^verbatim>\<open>content[end:]\<close> panic out of range; with
  \<open>start \<le> end\<close> checked before, both are in range exactly when
  \<open>0 \<le> start\<close> and \<open>end \<le> len(content)\<close>.
\<close>

fun applyChanges ::
  "(string \<Rightarrow> string \<Rightarrow> ProtocolRange \<Rightarrow> error + Span) \<Rightarrow> string \<Rightarrow>
   TextDocumentContentChangeEvent list \<Rightarrow> string \<Rightarrow> (error + string) outcome" where
  "applyChanges RangeSpan u [] content' = Returns (Inr content')"
| "applyChanges RangeSpan u (change # rest) content' =
     (case Range' change of
        None \<Rightarrow> Panics NilDereference
      | Some r \<Rightarrow>
          (case RangeSpan u content' r of
             Inl err \<Rightarrow> Returns (Inl err)
           | Inr spn \<Rightarrow>
               if \<not> HasOffset spn
               then Returns (Inl (JsonrpcError CodeInternalError
                                    ''invalid range for content change''))
               else if EndOffset spn < StartOffset spn
               then Returns (Inl (JsonrpcError CodeInternalError
                                    ''invalid range for content change''))
               else if StartOffset spn < 0 \<or> int (length content') < EndOffset spn
               then Panics SliceBounds
               else applyChanges RangeSpan u rest
                      (take (nat (StartOffset spn)) content' @ Text change @
                       drop (nat (EndOffset spn)) content')))"

definition ApplyIncrementalChanges ::
  "(string \<Rightarrow> string \<Rightarrow> ProtocolRange \<Rightarrow> error + Span) \<Rightarrow> DocumentHandle \<Rightarrow>
   TextDocumentContentChangeEvent list \<Rightarrow> real \<Rightarrow> heap \<Rightarrow>
   (error + string) outcome \<times> heap" where
  "ApplyIncrementalChanges RangeSpan d changes version' =
     RLocked (\<lambda>s.
       if version' \<le> version (doc s)
       then Returns (Inl (JsonrpcError CodeInvalidParams
                           ''Update to file didn't increase version number''))
       else applyChanges RangeSpan (uri (doc s)) changes (content (doc s)))"

text \<open>
  \<^verbatim>\<open>token.File.SetLinesForContent\<close>: a line starts at offset 0 and after every newline
  that is not the last byte.
\<close>

fun linesLoop :: "string \<Rightarrow> int \<Rightarrow> int \<Rightarrow> int list" where
  "linesLoop [] offset line = []"
| "linesLoop (b # bs) offset line =
     (if 0 \<le> line then [line] else []) @
     linesLoop bs (offset + 1) (if b = CHR 0x0A then offset + 1 else - 1)"

definition SetLinesForContent :: "File \<Rightarrow> string \<Rightarrow> File" where
  "SetLinesForContent f c = f\<lparr>lines := linesLoop c 0 0\<rparr>"

text \<open>Calling the cancel function \<^verbatim>\<open>d.doc.obsoleteVersion()\<close>.\<close>

definition callObsoleteVersion :: "heap \<Rightarrow> heap outcome" where
  "callObsoleteVersion s =
     (case obsoleteVersion (doc s) of
        None \<Rightarrow> Panics NilDereference
      | Some c \<Rightarrow> Returns (s\<lparr>cancelled := insert c (cancelled s)\<rparr>))"

text \<open>
  \<^verbatim>\<open>SetContent\<close>. The constant \<^verbatim>\<open>maxDocumentSize\<close> is declared in another file of the
  package and is a parameter. The \<^verbatim>\<open>go\<close> statement records the handle of the new
  \<^verbatim>\<open>compile\<close> goroutine.
\<close>

definition setContentBody ::
  "int \<Rightarrow> Context \<Rightarrow> string \<Rightarrow> real \<Rightarrow> bool \<Rightarrow> heap \<Rightarrow> error option outcome \<times> heap" where
  "setContentBody maxDocumentSize serverLifetime content' version' new s =
     (if \<not> new \<and> version' \<le> version (doc s)
      then (Returns (Some (JsonrpcError CodeInvalidParams
                            ''Update to file didn't increase version number'')), s)
      else if maxDocumentSize < int (length content')
      then (Returns (Some (JsonrpcError CodeInternalError
                            ''cache/SetContent: Provided.document to large.'')), s)
      else
        (case (if \<not> new then callObsoleteVersion s else Returns s) of
           Panics r \<Rightarrow> (Panics r, s)
         | Blocks \<Rightarrow> (Blocks, s)
         | Returns s1 \<Rightarrow>
             (case WithCancel serverLifetime s1 of
                (c, s2) \<Rightarrow>
                  (Returns None,
                   s2\<lparr>doc := (doc s2)
                        \<lparr>versionCtx := Some c,
                         obsoleteVersion := Some c,
                         content := content',
                         version := version',
                         posData := SetLinesForContent (posData (doc s2))
                                      (content' @ [CHR 0x0A]),
                         queries := [],
                         yamls := [],
                         diagnostics := [],
                         compilers := Suc (compilers (doc s2))\<rparr>,
                      goroutines := goroutines s2 @ [\<lparr>ctx = c\<rparr>]\<rparr>))))"

definition SetContent ::
  "int \<Rightarrow> DocumentHandle \<Rightarrow> Context \<Rightarrow> string \<Rightarrow> real \<Rightarrow> bool \<Rightarrow> heap \<Rightarrow>
   error option outcome \<times> heap" where
  "SetContent maxDocumentSize d serverLifetime content' version' new =
     Locked (setContentBody maxDocumentSize serverLifetime content' version' new)"

definition GetContent :: "DocumentHandle \<Rightarrow> heap \<Rightarrow> (error + string) outcome \<times> heap" where
  "GetContent d = RLocked (\<lambda>s. Returns (selectDone d s (content (doc s))))"

text \<open>
  \<^verbatim>\<open>GetSubstring\<close>: the error of an invalid range is decided only in the
  \<^verbatim>\<open>default\<close> branch of the \<^verbatim>\<open>select\<close>.
\<close>

definition GetSubstring ::
  "DocumentHandle \<Rightarrow> Pos \<Rightarrow> Pos \<Rightarrow> heap \<Rightarrow> (error + string) outcome \<times> heap" where
  "GetSubstring d pos endPos =
     RLocked (\<lambda>s.
       if ctx d \<in> cancelled s then Returns (Inl Canceled)
       else
         (let c = content (doc s);
              b = base (posData (doc s));
              pos' = pos - b;
              endPos' = endPos - b
          in if pos' < 0 \<or> endPos' < pos' \<or> int (length c) < endPos'
             then Returns (Inl (ErrorString ''invalid range''))
             else Returns (Inr (take (nat (endPos' - pos')) (drop (nat pos') c)))))"

text \<open>\<^verbatim>\<open>d.doc.compilers.Wait()\<close> suspends the call until the counter is zero.\<close>

definition Waited :: "(heap \<Rightarrow> 'a outcome \<times> heap) \<Rightarrow> heap \<Rightarrow> 'a outcome \<times> heap" where
  "Waited rest s = (if 0 < compilers (doc s) then (Blocks, s) else rest s)"

definition GetQueries ::
  "DocumentHandle \<Rightarrow> heap \<Rightarrow> (error + CompiledQuery list) outcome \<times> heap" where
  "GetQueries d = Waited (RLocked (\<lambda>s. Returns (selectDone d s (queries (doc s)))))"

text \<open>
  The loop of \<^verbatim>\<open>GetQuery\<close>:
  \<^verbatim>\<open>query.Ast != nil && query.Pos <= pos && query.Pos+token.Pos(query.Ast.PositionRange().End) >= pos\<close>
\<close>

fun scanQueries :: "CompiledQuery list \<Rightarrow> Pos \<Rightarrow> error + CompiledQuery" where
  "scanQueries [] pos = Inl (ErrorString ''no query found at given position'')"
| "scanQueries (query # rest) pos =
     (case Ast query of
        None \<Rightarrow> scanQueries rest pos
      | Some ast \<Rightarrow>
          if QPos query \<le> pos \<and> pos \<le> QPos query + RangeEnd ast then Inr query
          else scanQueries rest pos)"

definition GetQuery ::
  "DocumentHandle \<Rightarrow> Pos \<Rightarrow> heap \<Rightarrow> (error + CompiledQuery) outcome \<times> heap" where
  "GetQuery d pos s =
     (case GetQueries d s of
        (Returns (Inl err), s') \<Rightarrow> (Returns (Inl err), s')
      | (Returns (Inr qs), s') \<Rightarrow> (Returns (scanQueries qs pos), s')
      | (Panics r, s') \<Rightarrow> (Panics r, s')
      | (Blocks, s') \<Rightarrow> (Blocks, s'))"

definition GetVersion :: "DocumentHandle \<Rightarrow> heap \<Rightarrow> (error + real) outcome \<times> heap" where
  "GetVersion d = RLocked (\<lambda>s. Returns (selectDone d s (version (doc s))))"

definition GetURI :: "DocumentHandle \<Rightarrow> heap \<Rightarrow> string" where
  "GetURI d s = uri (doc s)"

definition GetLanguageID :: "DocumentHandle \<Rightarrow> heap \<Rightarrow> string" where
  "GetLanguageID d s = languageID (doc s)"

definition GetYamls :: "DocumentHandle \<Rightarrow> heap \<Rightarrow> (error + YamlDoc list) outcome \<times> heap" where
  "GetYamls d = RLocked (\<lambda>s. Returns (selectDone d s (yamls (doc s))))"

definition GetDiagnostics ::
  "DocumentHandle \<Rightarrow> heap \<Rightarrow> (error + Diagnostic list) outcome \<times> heap" where
  "GetDiagnostics d = Waited (RLocked (\<lambda>s. Returns (selectDone d s (diagnostics (doc s)))))"

subsection \<open>The library functions that position.go calls\<close>

text \<open>
  \<^verbatim>\<open>token.File.LineStart\<close> of the Go library: it panics with a string when the line
  is not one of the table.
\<close>

definition LineStart :: "File \<Rightarrow> int \<Rightarrow> panic + Pos" where
  "LineStart f line =
     (if line < 1 then Inl (LineTooSmall line)
      else if int (length (lines f)) < line
      then Inl (LineTooLarge line (int (length (lines f))))
      else Inr (base f + lines f ! nat (line - 1)))"

text \<open>
  \<^verbatim>\<open>utf8.DecodeRune\<close> of the Go library on a sequence of byte values: the rune and its
  width in bytes; an invalid or truncated encoding is \<^verbatim>\<open>RuneError\<close> of width 1.
\<close>

definition RuneError :: nat where
  "RuneError = 0xFFFD"

definition DecodeRune :: "nat list \<Rightarrow> nat \<times> nat" where
  "DecodeRune p =
     (case p of
        [] \<Rightarrow> (RuneError, 0)
      | p0 # rest \<Rightarrow>
          if p0 < 0x80 then (p0, 1)
          else if p0 < 0xC2 \<or> 0xF4 < p0 then (RuneError, 1)
          else
            (let sz = (if p0 < 0xE0 then 2 else if p0 < 0xF0 then 3 else (4::nat));
                 lo = (if p0 = 0xE0 then 0xA0 else if p0 = 0xF0 then 0x90 else (0x80::nat));
                 hi = (if p0 = 0xED then 0x9F else if p0 = 0xF4 then 0x8F else (0xBF::nat))
             in if length p < sz then (RuneError, 1)
                else if rest ! 0 < lo \<or> hi < rest ! 0 then (RuneError, 1)
                else if sz \<le> 2 then ((p0 mod 32) * 64 + rest ! 0 mod 64, 2)
                else if rest ! 1 < 0x80 \<or> 0xBF < rest ! 1 then (RuneError, 1)
                else if sz \<le> 3
                then ((p0 mod 16) * 4096 + (rest ! 0 mod 64) * 64 + rest ! 1 mod 64, 3)
                else if rest ! 2 < 0x80 \<or> 0xBF < rest ! 2 then (RuneError, 1)
                else ((p0 mod 8) * 262144 + (rest ! 0 mod 64) * 4096 +
                      (rest ! 1 mod 64) * 64 + rest ! 2 mod 64, 4)))"

text \<open>
  \<^verbatim>\<open>len(utf16.Encode([]rune(string(b))))\<close>: a rune of a supplementary plane is two
  UTF-16 code units, every other rune is one.
\<close>

fun utf16Len :: "nat list \<Rightarrow> nat" where
  "utf16Len [] = 0"
| "utf16Len (b # bs) =
     (case DecodeRune (b # bs) of
        (r, w) \<Rightarrow> (if 0x10000 \<le> r then 2 else 1) + utf16Len (drop (w - 1) bs))"

text \<open>\<^verbatim>\<open>span.Point\<close> with \<^verbatim>\<open>span.NewPoint(line, col, offset)\<close>.\<close>

record Point =
  PtLine :: int
  PtColumn :: int
  PtOffset :: int

definition NewPoint :: "int \<Rightarrow> int \<Rightarrow> int \<Rightarrow> Point" where
  "NewPoint line col offset = \<lparr>PtLine = line, PtColumn = col, PtOffset = offset\<rparr>"

text \<open>
  Modelled from the spec: \<^verbatim>\<open>span.ToUTF16Column\<close> of the vendored go-tools span
  package is not among the sources. Section 4.3: the conversion scans the bytes of the
  line from its start up to the byte column, counting the UTF-16 code units of each
  UTF-8 rune (two for a rune of a supplementary plane, one otherwise). The result is a
  1-based column, as the caller's \<^verbatim>\<open>char--\<close> ("Protocol has zero based positions")
  shows; the start of the line is the point's offset less its 0-based column. A point
  without a line, without an offset, or outside the content is an error.
\<close>

definition ToUTF16Column :: "Point \<Rightarrow> string \<Rightarrow> error + int" where
  "ToUTF16Column p c =
     (if PtLine p \<le> 0
      then Inl (ErrorString ''ToUTF16Column: point is missing position'')
      else if PtOffset p < 0
      then Inl (ErrorString ''ToUTF16Column: point is missing offset'')
      else
        (let colZero = PtColumn p - 1
         in if colZero = 0 then Inr 1
            else if colZero < 0
            then Inl (ErrorString ''ToUTF16Column: column is invalid'')
            else
              (let lineOffset = PtOffset p - colZero
               in if lineOffset < 0 \<or> int (length c) < PtOffset p
                  then Inl (ErrorString ''ToUTF16Column: offsets outside file contents'')
                  else Inr (int (utf16Len (map of_char
                              (take (nat colZero) (drop (nat lineOffset) c)))) + 1))))"

text \<open>
  Modelled from the spec: \<^verbatim>\<open>span.FromUTF16Column\<close> of the vendored go-tools span
  package is not among the sources. Section 4.3: the inverse operation scans the same
  line counting UTF-16 units until the requested count is reached, yielding the
  equivalent byte column, and fails with InvalidPosition if the requested UTF-16 column
  exceeds the units available on that line. The requested column \<^verbatim>\<open>chr\<close> is 1-based,
  as the result of \<^verbatim>\<open>ToUTF16Column\<close> is: column 1 (or less) asks for no unit, and the
  point comes back as it is. A column that falls inside a two-unit rune stops before it.

  \<^verbatim>\<open>advanceUTF16 n bs\<close> is the number of bytes of \<^verbatim>\<open>bs\<close> that hold the next \<^verbatim>\<open>n\<close>
  units of the line.
\<close>

fun advanceUTF16 :: "nat \<Rightarrow> nat list \<Rightarrow> error + nat" where
  "advanceUTF16 0 bs = Inr 0"
| "advanceUTF16 (Suc n) [] =
     Inl (ErrorString ''FromUTF16Column: chr goes beyond the content'')"
| "advanceUTF16 (Suc n) (b # bs) =
     (case DecodeRune (b # bs) of
        (r, w) \<Rightarrow>
          if r = 0x0A
          then Inl (ErrorString ''FromUTF16Column: chr goes beyond the line'')
          else if 0x10000 \<le> r
          then (if n = 0 then Inr 0
                else map_sum id (\<lambda>k. k + w) (advanceUTF16 (n - 1) (drop (w - 1) bs)))
          else map_sum id (\<lambda>k. k + w) (advanceUTF16 n (drop (w - 1) bs)))"

definition FromUTF16Column :: "Point \<Rightarrow> int \<Rightarrow> string \<Rightarrow> error + Point" where
  "FromUTF16Column p chr c =
     (if PtOffset p < 0
      then Inl (ErrorString ''FromUTF16Column: point is missing offset'')
      else if chr \<le> 1 then Inr p
      else
        (case advanceUTF16 (nat (chr - 1)) (map of_char (drop (nat (PtOffset p)) c)) of
           Inl err \<Rightarrow> Inl err
         | Inr k \<Rightarrow>
             Inr (p\<lparr>PtColumn := PtColumn p + int k, PtOffset := PtOffset p + int k\<rparr>)))"

subsection \<open>position.go\<close>

text \<open>
  \<^verbatim>\<open>LineStartSafe\<close>: the deferred function recovers the panic of \<^verbatim>\<open>LineStart\<close>; a
  panic value that is an \<^verbatim>\<open>error\<close> (a runtime error) becomes the result as it is,
  any other value is wrapped by \<^verbatim>\<open>fmt.Errorf("LineStart panic: %v", r)\<close>.
\<close>

definition recovered :: "panic \<Rightarrow> error" where
  "recovered r =
     (case r of
        NilDereference \<Rightarrow> RuntimeError r
      | SliceBounds \<Rightarrow> RuntimeError r
      | _ \<Rightarrow> LineStartPanic r)"

definition LineStartSafe :: "DocumentHandle \<Rightarrow> heap \<Rightarrow> int \<Rightarrow> error + Pos" where
  "LineStartSafe d s line =
     (case LineStart (posData (doc s)) line of
        Inl r \<Rightarrow> Inl (recovered r)
      | Inr pos \<Rightarrow> Inr pos)"

definition PositionToProtocolPosition ::
  "DocumentHandle \<Rightarrow> Position \<Rightarrow> heap \<Rightarrow> (error + ProtocolPosition) outcome \<times> heap" where
  "PositionToProtocolPosition d pos =
     RLocked (\<lambda>s.
       if ctx d \<in> cancelled s then Returns (Inl Canceled)
       else if Line pos < 1 then Returns (Inr \<lparr>PLine = 0, Character = 0\<rparr>)
       else
         (case LineStartSafe d s (Line pos) of
            Inl err \<Rightarrow> Returns (Inl err)
          | Inr lineStart \<Rightarrow>
              (let offset = lineStart - base (posData (doc s)) + Column pos - 1;
                   point = NewPoint (Line pos) (Column pos) offset
               in case ToUTF16Column point (content (doc s)) of
                    Inl err \<Rightarrow> Returns (Inl err)
                  | Inr char \<Rightarrow>
                      Returns (Inr \<lparr>PLine = Line pos - 1, Character = char - 1\<rparr>))))"

definition ProtocolPositionToTokenPos ::
  "DocumentHandle \<Rightarrow> ProtocolPosition \<Rightarrow> heap \<Rightarrow> (error + Pos) outcome \<times> heap" where
  "ProtocolPositionToTokenPos d pos =
     RLocked (\<lambda>s.
       if ctx d \<in> cancelled s then Returns (Inl Canceled)
       else
         (let line = PLine pos + 1;
              char = Character pos
          in case LineStartSafe d s line of
               Inl err \<Rightarrow> Returns (Inl err)
             | Inr lineStart \<Rightarrow>
                 (let offset = lineStart - base (posData (doc s));
                      point = NewPoint line 1 offset
                  in case FromUTF16Column point char (content (doc s)) of
                       Inl err \<Rightarrow> Returns (Inl err)
                     | Inr point' \<Rightarrow> Returns (Inr (lineStart + PtColumn point')))))"

definition YamlPositionToTokenPos ::
  "DocumentHandle \<Rightarrow> int \<Rightarrow> int \<Rightarrow> int \<Rightarrow> heap \<Rightarrow> (error + Pos) outcome \<times> heap" where
  "YamlPositionToTokenPos d line column lineOffset =
     RLocked (\<lambda>s.
       if ctx d \<in> cancelled s then Returns (Inl Canceled)
       else if column < 1 then Returns (Inl (ErrorString ''invalid position''))
       else
         (case LineStartSafe d s (line + lineOffset) of
            Inl err \<Rightarrow> Returns (Inl err)
          | Inr lineStart \<Rightarrow> Returns (Inr (lineStart + (column - 1)))))"

definition EndOfLine :: "ProtocolPosition \<Rightarrow> ProtocolPosition" where
  "EndOfLine p = \<lparr>PLine = PLine p + 1, Character = 0\<rparr>"

subsection \<open>The names of the specification\<close>

text \<open>The error kinds of the specification, as the values the code returns for them.\<close>

definition VersionNotIncreasing :: error where
  "VersionNotIncreasing =
     JsonrpcError CodeInvalidParams ''Update to file didn't increase version number''"

definition DocumentTooLarge :: error where
  "DocumentTooLarge =
     JsonrpcError CodeInternalError ''cache/SetContent: Provided.document to large.''"

definition Obsolete :: error where
  "Obsolete = Canceled"

definition NotFound :: error where
  "NotFound = ErrorString ''no query found at given position''"

definition InvalidLine :: "heap \<Rightarrow> int \<Rightarrow> error" where
  "InvalidLine s line =
     LineStartPanic (if line < 1 then LineTooSmall line
                     else LineTooLarge line (int (length (lines (posData (doc s))))))"

text \<open>
  The span test of \<^verbatim>\<open>GetQuery\<close> as a predicate: the query has an AST and the offset
  lies in the closed interval from the query's start to its start plus the end of the
  AST's position range.
\<close>

definition spanContains :: "CompiledQuery \<Rightarrow> Pos \<Rightarrow> bool" where
  "spanContains q pos =
     (case Ast q of
        None \<Rightarrow> False
      | Some ast \<Rightarrow> QPos q \<le> pos \<and> pos \<le> QPos q + RangeEnd ast)"

text \<open>
  The span test in the words of the specification (section 4.1, GetQueryAt): the
  half-open span from start to start plus length.
\<close>

definition halfOpenSpanContains :: "CompiledQuery \<Rightarrow> Pos \<Rightarrow> bool" where
  "halfOpenSpanContains q pos =
     (case Ast q of
        None \<Rightarrow> False
      | Some ast \<Rightarrow> QPos q \<le> pos \<and> pos < QPos q + RangeEnd ast)"

text \<open>
  The heap \<open>s\<close> with the derived slots holding \<open>qs\<close>, \<open>ys\<close> and \<open>ds\<close> and the counter
  of the wait group at zero; the cancelled contexts stay cancelled.
\<close>

definition drained ::
  "heap \<Rightarrow> CompiledQuery list \<Rightarrow> YamlDoc list \<Rightarrow> Diagnostic list \<Rightarrow> heap" where
  "drained s qs ys ds =
     s\<lparr>doc := (doc s)\<lparr>queries := qs, yamls := ys, diagnostics := ds, compilers := 0\<rparr>\<rparr>"

subsection \<open>Example documents\<close>

text \<open>
  A document that was never set; the same document after
  \<^verbatim>\<open>SetContent(ctx0, "ab", 1, true)\<close>, its recompilation still running; that document
  after \<^verbatim>\<open>SetContent(ctx0, "a\nb", 2, false)\<close>; a YAML document with the two lines
  "a: up +" and "b: up + down", whose recompilation has published two queries, the first
  (at offset 3, position 4) without an AST, the second (at offset 11, position 12) with
  an AST of 9 bytes; and a document with the content of the specification's
  example, "hello" with an accented e, the accented letter being the two bytes C3 A9.
\<close>

definition newDocument :: heap where
  "newDocument =
     \<lparr>doc = \<lparr>posData = \<lparr>base = 1, fsize = 1000, lines = [0]\<rparr>,
             uri = ''file:///rules.promql'', languageID = ''promql'',
             version = 0, content = [],
             mu = \<lparr>readers = 0, writer = False\<rparr>,
             versionCtx = None, obsoleteVersion = None,
             queries = [], yamls = [], diagnostics = [], compilers = 0\<rparr>,
      cancelled = {}, nextCtx = 1, goroutines = []\<rparr>"

definition openedDocument :: heap where
  "openedDocument =
     \<lparr>doc = \<lparr>posData = \<lparr>base = 1, fsize = 1000, lines = [0]\<rparr>,
             uri = ''file:///rules.promql'', languageID = ''promql'',
             version = 1, content = ''ab'',
             mu = \<lparr>readers = 0, writer = False\<rparr>,
             versionCtx = Some 1, obsoleteVersion = Some 1,
             queries = [], yamls = [], diagnostics = [], compilers = 1\<rparr>,
      cancelled = {}, nextCtx = 2, goroutines = [\<lparr>ctx = 1\<rparr>]\<rparr>"

definition editedDocument :: heap where
  "editedDocument =
     \<lparr>doc = \<lparr>posData = \<lparr>base = 1, fsize = 1000, lines = [0, 2]\<rparr>,
             uri = ''file:///rules.promql'', languageID = ''promql'',
             version = 2, content = [CHR ''a'', CHR 0x0A, CHR ''b''],
             mu = \<lparr>readers = 0, writer = False\<rparr>,
             versionCtx = Some 2, obsoleteVersion = Some 2,
             queries = [], yamls = [], diagnostics = [], compilers = 2\<rparr>,
      cancelled = {1}, nextCtx = 3, goroutines = [\<lparr>ctx = 1\<rparr>, \<lparr>ctx = 2\<rparr>]\<rparr>"

definition compiledDocument :: heap where
  "compiledDocument =
     \<lparr>doc = \<lparr>posData = \<lparr>base = 1, fsize = 1000, lines = [0, 8]\<rparr>,
             uri = ''file:///rules.yaml'', languageID = ''yaml'',
             version = 1, content = ''a: up +'' @ [CHR 0x0A] @ ''b: up + down'',
             mu = \<lparr>readers = 0, writer = False\<rparr>,
             versionCtx = Some 1, obsoleteVersion = Some 1,
             queries = [\<lparr>QPos = 4, Ast = None\<rparr>,
                        \<lparr>QPos = 12, Ast = Some \<lparr>RangeStart = 0, RangeEnd = 9\<rparr>\<rparr>],
             yamls = [], diagnostics = [], compilers = 0\<rparr>,
      cancelled = {}, nextCtx = 2, goroutines = [\<lparr>ctx = 1\<rparr>]\<rparr>"

definition accentDocument :: heap where
  "accentDocument =
     \<lparr>doc = \<lparr>posData = \<lparr>base = 1, fsize = 1000, lines = [0]\<rparr>,
             uri = ''file:///rules.promql'', languageID = ''promql'',
             version = 1,
             content = [CHR 0x68, CHR 0xC3, CHR 0xA9, CHR 0x6C, CHR 0x6C, CHR 0x6F],
             mu = \<lparr>readers = 0, writer = False\<rparr>,
             versionCtx = Some 1, obsoleteVersion = Some 1,
             queries = [], yamls = [], diagnostics = [], compilers = 0\<rparr>,
      cancelled = {}, nextCtx = 2, goroutines = [\<lparr>ctx = 1\<rparr>]\<rparr>"

section \<open>Properties\<close>

subsection \<open>The lock, and how the example documents arise\<close>

lemma RLocked_eq:
  "RLocked body s =
     (if writer (mu (doc s)) then (Blocks, s)
      else (body (s\<lparr>doc := (doc s)\<lparr>mu := (mu (doc s))
                     \<lparr>readers := Suc (readers (mu (doc s)))\<rparr>\<rparr>\<rparr>), s))"
  by (simp add: RLocked_def RLock_def RUnlock_def)

lemma Locked_eq:
  "Locked body s =
     (if writer (mu (doc s)) \<or> 0 < readers (mu (doc s)) then (Blocks, s)
      else (case body (s\<lparr>doc := (doc s)\<lparr>mu := (mu (doc s))\<lparr>writer := True\<rparr>\<rparr>\<rparr>) of
              (r, s2) \<Rightarrow> (r, s2\<lparr>doc := (doc s2)\<lparr>mu := (mu (doc s2))\<lparr>writer := False\<rparr>\<rparr>\<rparr>)))"
  by (simp add: Locked_def Lock_def Unlock_def)

lemma opened_by_SetContent:
  "SetContent 1000 \<lparr>ctx = 0\<rparr> 0 ''ab'' 1 True newDocument = (Returns None, openedDocument)"
  by (simp add: SetContent_def Locked_eq setContentBody_def newDocument_def
        openedDocument_def WithCancel_def SetLinesForContent_def)

lemma edited_by_SetContent:
  "SetContent 1000 \<lparr>ctx = 1\<rparr> 0 [CHR ''a'', CHR 0x0A, CHR ''b''] 2 False openedDocument =
     (Returns None, editedDocument)"
  by (simp add: SetContent_def Locked_eq setContentBody_def openedDocument_def
        editedDocument_def WithCancel_def SetLinesForContent_def callObsoleteVersion_def)

lemma accent_by_SetContent:
  "SetContent 1000 \<lparr>ctx = 0\<rparr> 0
       [CHR 0x68, CHR 0xC3, CHR 0xA9, CHR 0x6C, CHR 0x6C, CHR 0x6F] 1 True newDocument =
     (Returns None, accentDocument\<lparr>doc := (doc accentDocument)\<lparr>compilers := 1\<rparr>\<rparr>)"
  by (simp add: SetContent_def Locked_eq setContentBody_def newDocument_def
        accentDocument_def WithCancel_def SetLinesForContent_def)

text \<open>
  The example of the specification: replacing the range of "bar" in "foo\nbar" by "baz",
  for a range mapper that locates the range at the offsets 4 to 7.
\<close>

lemma applyChanges_example:
  "applyChanges (\<lambda>u c r. Inr \<lparr>HasOffset = True, StartOffset = 4, EndOffset = 7\<rparr>) u
     [\<lparr>Range' = Some r, RangeLength = 3, Text = ''baz''\<rparr>]
     (''foo'' @ [CHR 0x0A] @ ''bar'') =
   Returns (Inr (''foo'' @ [CHR 0x0A] @ ''baz''))"
  by simp

text \<open>
  The edits of a batch are applied in order, each to the content as the edits before it
  have left it; the first failure ends the batch.
\<close>

lemma applyChanges_append:
  "applyChanges RangeSpan u (xs @ ys) c =
     (case applyChanges RangeSpan u xs c of
        Returns (Inr c') \<Rightarrow> applyChanges RangeSpan u ys c'
      | other \<Rightarrow> other)"
  by (induction xs arbitrary: c) (simp_all split: option.splits sum.splits)

text \<open>
  The position index that \<^verbatim>\<open>SetContent\<close> builds has one more line than the content
  has newlines.
\<close>

lemma linesLoop_length:
  "0 \<le> offset \<Longrightarrow>
   length (linesLoop c offset line) =
     (if c = [] then 0
      else (if 0 \<le> line then 1 else 0) + length (filter (\<lambda>b. b = CHR 0x0A) (butlast c)))"
  by (induction c arbitrary: offset line) simp_all

lemma SetLinesForContent_count:
  "length (lines (SetLinesForContent f (c @ [CHR 0x0A]))) =
     Suc (length (filter (\<lambda>b. b = CHR 0x0A) c))"
  by (simp add: SetLinesForContent_def linesLoop_length)

text \<open>
  Every successful \<^verbatim>\<open>SetContent\<close> stores a fresh token together with the function
  that cancels it.
\<close>

lemma SetContent_pairs_token_and_cancel:
  assumes "SetContent M d0 sl c v new s = (Returns None, s')"
  shows "obsoleteVersion (doc s') = versionCtx (doc s') \<and>
         versionCtx (doc s') = Some (nextCtx s)"
  using assms
  by (auto simp add: SetContent_def Locked_eq setContentBody_def callObsoleteVersion_def
        WithCancel_def Let_def split: if_splits option.splits)

text \<open>What a successful \<^verbatim>\<open>SetContent\<close> stores.\<close>

lemma SetContent_stores:
  assumes "SetContent M d0 sl c v new s = (Returns None, s')"
  shows "content (doc s') = c \<and> version (doc s') = v \<and>
         lines (posData (doc s')) = linesLoop (c @ [CHR 0x0A]) 0 0 \<and>
         base (posData (doc s')) = base (posData (doc s)) \<and>
         queries (doc s') = [] \<and> yamls (doc s') = [] \<and> diagnostics (doc s') = [] \<and>
         compilers (doc s') = Suc (compilers (doc s)) \<and>
         goroutines s' = goroutines s @ [\<lparr>ctx = nextCtx s\<rparr>] \<and>
         mu (doc s') = mu (doc s)"
  using assms
  by (auto simp add: SetContent_def Locked_eq setContentBody_def callObsoleteVersion_def
        WithCancel_def SetLinesForContent_def Let_def split: if_splits option.splits)

text \<open>
  A \<^verbatim>\<open>SetContent\<close> that is not the initial one cancels the token of the version it
  replaces.
\<close>

lemma SetContent_update_cancels:
  assumes "SetContent M d0 sl c v False s = (Returns None, s')"
    and "obsoleteVersion (doc s) = Some k"
  shows "k \<in> cancelled s' \<and> \<not> writer (mu (doc s')) \<and> 0 < compilers (doc s') \<and>
         uri (doc s') = uri (doc s) \<and> languageID (doc s') = languageID (doc s)"
  using assms
  by (auto simp add: SetContent_def Locked_eq setContentBody_def callObsoleteVersion_def
        WithCancel_def Let_def split: if_splits)

subsection \<open>Getters on a cancelled handle\<close>

lemma getters_obsolete:
  assumes "ctx h \<in> cancelled t" and "\<not> writer (mu (doc t))"
  shows "GetContent h t = (Returns (Inl Obsolete), t)"
    and "GetSubstring h p e t = (Returns (Inl Obsolete), t)"
    and "GetVersion h t = (Returns (Inl Obsolete), t)"
    and "GetYamls h t = (Returns (Inl Obsolete), t)"
    and "PositionToProtocolPosition h pos t = (Returns (Inl Obsolete), t)"
    and "ProtocolPositionToTokenPos h pp t = (Returns (Inl Obsolete), t)"
    and "YamlPositionToTokenPos h l c off t = (Returns (Inl Obsolete), t)"
  using assms
  by (simp_all add: GetContent_def GetSubstring_def GetVersion_def GetYamls_def
        PositionToProtocolPosition_def ProtocolPositionToTokenPos_def
        YamlPositionToTokenPos_def RLocked_eq selectDone_def Obsolete_def)

lemma waiting_getters_obsolete:
  assumes "ctx h \<in> cancelled t" and "\<not> writer (mu (doc t))"
  shows "GetQueries h t =
           ((if 0 < compilers (doc t) then Blocks else Returns (Inl Obsolete)), t)"
    and "GetDiagnostics h t =
           ((if 0 < compilers (doc t) then Blocks else Returns (Inl Obsolete)), t)"
    and "GetQuery h p t =
           ((if 0 < compilers (doc t) then Blocks else Returns (Inl Obsolete)), t)"
  using assms
  by (simp_all add: GetQueries_def GetDiagnostics_def GetQuery_def Waited_def RLocked_eq
        selectDone_def Obsolete_def)

subsection \<open>The scan of GetQuery\<close>

lemma scanQueries_find:
  "scanQueries qs pos =
     (case find (\<lambda>q. spanContains q pos) qs of None \<Rightarrow> Inl NotFound | Some q \<Rightarrow> Inr q)"
  by (induction qs) (simp_all add: spanContains_def NotFound_def split: option.splits)

lemma GetQuery_eq:
  "GetQuery d pos s =
     ((if 0 < compilers (doc s) \<or> writer (mu (doc s)) then Blocks
       else if ctx d \<in> cancelled s then Returns (Inl Canceled)
       else Returns (scanQueries (queries (doc s)) pos)), s)"
  by (simp add: GetQuery_def GetQueries_def Waited_def RLocked_eq selectDone_def)

section \<open>The claims\<close>

subsection \<open>C1: which getters wait for the recompilation\<close>

text \<open>
  Claim C1 says that \<^verbatim>\<open>GetQueries\<close>, \<^verbatim>\<open>GetDiagnostics\<close> and \<^verbatim>\<open>GetYamls\<close> each
  suspend the caller until the counter of running recompilations is zero. The first two
  do. \<^verbatim>\<open>GetYamls\<close> does not call \<^verbatim>\<open>compilers.Wait()\<close>, although its comment says
  "It blocks until all compile tasks are finished": on the document that was just set,
  with one recompilation running and a live handle, the two others are suspended and
  \<^verbatim>\<open>GetYamls\<close> returns the slot that \<^verbatim>\<open>SetContent\<close> has emptied.
\<close>

theorem GetYamls_does_not_wait:
  "compilers (doc openedDocument) = 1 \<and>
   GetQueries \<lparr>ctx = 1\<rparr> openedDocument = (Blocks, openedDocument) \<and>
   GetDiagnostics \<lparr>ctx = 1\<rparr> openedDocument = (Blocks, openedDocument) \<and>
   GetYamls \<lparr>ctx = 1\<rparr> openedDocument = (Returns (Inr []), openedDocument)"
  by (simp add: GetQueries_def GetDiagnostics_def GetYamls_def Waited_def RLocked_eq
        selectDone_def)
     (simp add: openedDocument_def)

subsection \<open>C2: the round trip through the protocol position\<close>

text \<open>
  Claim C2 says that \<^verbatim>\<open>ProtocolPositionToTokenPos\<close> after
  \<^verbatim>\<open>PositionToProtocolPosition\<close> gives the position again. The position of line
  \<open>l\<close>, column \<open>c\<close> is the \<^verbatim>\<open>token.Pos\<close> \<open>LineStart l + (c - 1)\<close>, which is how
  \<^verbatim>\<open>YamlPositionToTokenPos\<close> composes it. On the content "ab" (base 1), line 1
  column 1 becomes the protocol position (0, 0), and that comes back as the
  \<^verbatim>\<open>token.Pos\<close> 2, the position of column 2; the position of column 1 is 1. On
  "hello" with an accented e, line 1 column 4 (just after the accented letter) becomes
  (0, 2) and comes back as 3, inside the two bytes of the letter, where the position
  is 4.
\<close>

theorem round_trip_off_by_one:
  "PositionToProtocolPosition \<lparr>ctx = 1\<rparr>
       \<lparr>Filename = [], Offset = 0, Line = 1, Column = 1\<rparr> openedDocument =
     (Returns (Inr \<lparr>PLine = 0, Character = 0\<rparr>), openedDocument) \<and>
   ProtocolPositionToTokenPos \<lparr>ctx = 1\<rparr> \<lparr>PLine = 0, Character = 0\<rparr> openedDocument =
     (Returns (Inr 2), openedDocument) \<and>
   YamlPositionToTokenPos \<lparr>ctx = 1\<rparr> 1 1 0 openedDocument =
     (Returns (Inr 1), openedDocument) \<and>
   PositionToProtocolPosition \<lparr>ctx = 1\<rparr>
       \<lparr>Filename = [], Offset = 3, Line = 1, Column = 4\<rparr> accentDocument =
     (Returns (Inr \<lparr>PLine = 0, Character = 2\<rparr>), accentDocument) \<and>
   ProtocolPositionToTokenPos \<lparr>ctx = 1\<rparr> \<lparr>PLine = 0, Character = 2\<rparr> accentDocument =
     (Returns (Inr 3), accentDocument) \<and>
   YamlPositionToTokenPos \<lparr>ctx = 1\<rparr> 1 4 0 accentDocument =
     (Returns (Inr 4), accentDocument)"
  by (simp add: PositionToProtocolPosition_def ProtocolPositionToTokenPos_def
        YamlPositionToTokenPos_def RLocked_eq LineStartSafe_def LineStart_def NewPoint_def
        ToUTF16Column_def FromUTF16Column_def openedDocument_def accentDocument_def
        DecodeRune_def RuneError_def Let_def)

subsection \<open>C3: a handle obtained before SetContent\<close>

text \<open>
  Claim C3 says that after a successful \<^verbatim>\<open>SetContent\<close> an older handle fails every
  getter with Obsolete. \<^verbatim>\<open>GetURI\<close> and \<^verbatim>\<open>GetLanguageID\<close> have no error result
  ("Since the URI never changes, it does not block or return errors"): on the older
  handle they still return the URI and the language. And an initial \<^verbatim>\<open>SetContent\<close>
  (\<^verbatim>\<open>new\<close> true) cancels nothing: an older handle then reads the new content.
\<close>

theorem getters_without_error_counterexample:
  "SetContent 1000 \<lparr>ctx = 1\<rparr> 0 [CHR ''a'', CHR 0x0A, CHR ''b''] 2 False openedDocument =
     (Returns None, editedDocument) \<and>
   versionCtx (doc openedDocument) = Some (ctx \<lparr>ctx = 1\<rparr>) \<and>
   GetURI \<lparr>ctx = 1\<rparr> editedDocument = ''file:///rules.promql'' \<and>
   GetLanguageID \<lparr>ctx = 1\<rparr> editedDocument = ''promql'' \<and>
   (case SetContent 1000 \<lparr>ctx = 1\<rparr> 0 ''up'' 2 True openedDocument of
      (r, s') \<Rightarrow> r = Returns None \<and> fst (GetContent \<lparr>ctx = 1\<rparr> s') = Returns (Inr ''up''))"
proof -
  have "case SetContent 1000 \<lparr>ctx = 1\<rparr> 0 ''up'' 2 True openedDocument of
      (r, s') \<Rightarrow> r = Returns None \<and> fst (GetContent \<lparr>ctx = 1\<rparr> s') = Returns (Inr ''up'')"
    by (simp add: SetContent_def Locked_eq setContentBody_def openedDocument_def
          WithCancel_def SetLinesForContent_def GetContent_def RLocked_eq selectDone_def)
  then show ?thesis
    using edited_by_SetContent
    by (simp add: GetURI_def GetLanguageID_def openedDocument_def editedDocument_def)
qed

text \<open>
  Claim C3, amended. Let a \<^verbatim>\<open>SetContent\<close> that is not the initial one succeed on a
  document whose cancel function belongs to its current token, and let \<open>h\<close> be a handle
  that carries that token. Afterwards \<^verbatim>\<open>GetContent\<close>, \<^verbatim>\<open>GetSubstring\<close>,
  \<^verbatim>\<open>GetVersion\<close>, \<^verbatim>\<open>GetYamls\<close> and the three position conversions fail on \<open>h\<close> with
  Obsolete. \<^verbatim>\<open>GetQueries\<close>, \<^verbatim>\<open>GetDiagnostics\<close> and \<^verbatim>\<open>GetQuery\<close> are suspended
  while the new recompilation runs and fail with Obsolete once the counter is zero,
  whatever the derived slots then hold. \<^verbatim>\<open>GetURI\<close> and \<^verbatim>\<open>GetLanguageID\<close> return
  the unchanged URI and language.
\<close>

theorem stale_handle_after_SetContent:
  assumes ok: "SetContent M d0 sl c v False s = (Returns None, s')"
    and h: "versionCtx (doc s) = Some (ctx h)"
    and inv: "obsoleteVersion (doc s) = versionCtx (doc s)"
  shows "GetContent h s' = (Returns (Inl Obsolete), s') \<and>
         GetSubstring h p e s' = (Returns (Inl Obsolete), s') \<and>
         GetVersion h s' = (Returns (Inl Obsolete), s') \<and>
         GetYamls h s' = (Returns (Inl Obsolete), s') \<and>
         PositionToProtocolPosition h pos s' = (Returns (Inl Obsolete), s') \<and>
         ProtocolPositionToTokenPos h pp s' = (Returns (Inl Obsolete), s') \<and>
         YamlPositionToTokenPos h l col off s' = (Returns (Inl Obsolete), s') \<and>
         GetQueries h s' = (Blocks, s') \<and>
         GetDiagnostics h s' = (Blocks, s') \<and>
         GetQuery h p s' = (Blocks, s') \<and>
         GetQueries h (drained s' qs ys ds) = (Returns (Inl Obsolete), drained s' qs ys ds) \<and>
         GetDiagnostics h (drained s' qs ys ds) =
           (Returns (Inl Obsolete), drained s' qs ys ds) \<and>
         GetQuery h p (drained s' qs ys ds) = (Returns (Inl Obsolete), drained s' qs ys ds) \<and>
         GetURI h s' = uri (doc s) \<and>
         GetLanguageID h s' = languageID (doc s)"
proof -
  from h inv have k: "obsoleteVersion (doc s) = Some (ctx h)" by simp
  note c = SetContent_update_cancels [OF ok k]
  from c have d: "ctx h \<in> cancelled (drained s' qs ys ds)"
    "\<not> writer (mu (doc (drained s' qs ys ds)))" "compilers (doc (drained s' qs ys ds)) = 0"
    by (simp_all add: drained_def)
  show ?thesis
    using c getters_obsolete [of h s'] waiting_getters_obsolete [of h s']
      waiting_getters_obsolete [OF d(1) d(2)] d(3)
    by (simp add: GetURI_def GetLanguageID_def)
qed

theorem stale_handle_after_SetContent_witness:
  "SetContent 1000 \<lparr>ctx = 1\<rparr> 0 [CHR ''a'', CHR 0x0A, CHR ''b''] 2 False openedDocument =
     (Returns None, editedDocument) \<and>
   versionCtx (doc openedDocument) = Some (ctx \<lparr>ctx = 1\<rparr>) \<and>
   obsoleteVersion (doc openedDocument) = versionCtx (doc openedDocument) \<and>
   GetContent \<lparr>ctx = 1\<rparr> editedDocument = (Returns (Inl Obsolete), editedDocument) \<and>
   GetVersion \<lparr>ctx = 1\<rparr> editedDocument = (Returns (Inl Obsolete), editedDocument) \<and>
   GetQueries \<lparr>ctx = 1\<rparr> editedDocument = (Blocks, editedDocument) \<and>
   fst (GetQueries \<lparr>ctx = 1\<rparr> (drained editedDocument [] [] [])) = Returns (Inl Obsolete) \<and>
   GetContent \<lparr>ctx = 2\<rparr> editedDocument =
     (Returns (Inr [CHR ''a'', CHR 0x0A, CHR ''b'']), editedDocument)"
proof -
  have ok: "SetContent 1000 \<lparr>ctx = 1\<rparr> 0 [CHR ''a'', CHR 0x0A, CHR ''b''] 2 False
              openedDocument = (Returns None, editedDocument)"
    by (rule edited_by_SetContent)
  have h: "versionCtx (doc openedDocument) = Some (ctx \<lparr>ctx = 1\<rparr>)"
    by (simp add: openedDocument_def)
  have inv: "obsoleteVersion (doc openedDocument) = versionCtx (doc openedDocument)"
    by (simp add: openedDocument_def)
  have new: "GetContent \<lparr>ctx = 2\<rparr> editedDocument =
     (Returns (Inr [CHR ''a'', CHR 0x0A, CHR ''b'']), editedDocument)"
    by (simp add: GetContent_def RLocked_eq selectDone_def editedDocument_def)
  show ?thesis
    using stale_handle_after_SetContent [OF ok h inv,
        where p = 0 and e = 0 and l = 0 and col = 0 and off = 0
          and pos = "\<lparr>Filename = [], Offset = 0, Line = 1, Column = 1\<rparr>"
          and pp = "\<lparr>PLine = 0, Character = 0\<rparr>"
          and qs = "[]" and ys = "[]" and ds = "[]"]
      ok h inv new
    by simp
qed

subsection \<open>C4: an edit without a range\<close>

text \<open>
  Claim C4 says that an edit without a range makes \<^verbatim>\<open>ApplyIncrementalChanges\<close>
  replace the whole content by the edit's text. The loop evaluates \<^verbatim>\<open>*change.Range\<close>
  for every edit, and no case tests for \<^verbatim>\<open>nil\<close>: on the document "ab" at version
  1, the batch of the one edit without a range and with the text "up", sent as version
  2, panics with a nil dereference, whatever the range mapper is.
\<close>

theorem whole_document_edit_panics:
  "version (doc openedDocument) < 2 \<and>
   ApplyIncrementalChanges RangeSpan \<lparr>ctx = 1\<rparr>
       [\<lparr>Range' = None, RangeLength = 0, Text = ''up''\<rparr>] 2 openedDocument =
     (Panics NilDereference, openedDocument)"
  by (simp add: ApplyIncrementalChanges_def RLocked_eq)
     (simp add: openedDocument_def)

subsection \<open>C5: the query at an offset\<close>

text \<open>
  Claim C5 says that \<^verbatim>\<open>GetQuery\<close> returns the first query whose half-open span
  from start to start plus length contains the offset, and fails with NotFound
  otherwise. The test of the code is
  \<^verbatim>\<open>query.Pos <= pos && query.Pos+End >= pos\<close>: the offset right after the query
  counts. In the YAML example the second query starts at 12 and its 9 bytes end before
  21; no half-open span contains the offset 21, and \<^verbatim>\<open>GetQuery\<close> returns that
  query.
\<close>

theorem GetQuery_half_open_counterexample:
  "find (\<lambda>q. halfOpenSpanContains q 21) (queries (doc compiledDocument)) = None \<and>
   fst (GetQuery \<lparr>ctx = 1\<rparr> 21 compiledDocument) =
     Returns (Inr \<lparr>QPos = 12, Ast = Some \<lparr>RangeStart = 0, RangeEnd = 9\<rparr>\<rparr>)"
  by (simp add: compiledDocument_def GetQuery_eq halfOpenSpanContains_def)

text \<open>
  Claim C5, amended. On a handle whose token is live, with no recompilation running and
  no writer holding the lock, \<^verbatim>\<open>GetQuery\<close> leaves the heap as it is and returns the
  first stored query that has an AST and whose closed span, from its start to its start
  plus the end of the AST's position range, contains the offset: no earlier query has
  such a span. It fails with NotFound when no stored query has such a span.
\<close>

theorem GetQuery_first_in_closed_span:
  assumes "ctx d \<notin> cancelled s" and "\<not> writer (mu (doc s))" and "compilers (doc s) = 0"
  shows "snd (GetQuery d pos s) = s \<and>
         ((\<exists>i<length (queries (doc s)).
              fst (GetQuery d pos s) = Returns (Inr (queries (doc s) ! i)) \<and>
              spanContains (queries (doc s) ! i) pos \<and>
              (\<forall>j<i. \<not> spanContains (queries (doc s) ! j) pos)) \<or>
          (fst (GetQuery d pos s) = Returns (Inl NotFound) \<and>
           (\<forall>q\<in>set (queries (doc s)). \<not> spanContains q pos)))"
proof (cases "find (\<lambda>q. spanContains q pos) (queries (doc s))")
  case None
  then have "\<forall>q\<in>set (queries (doc s)). \<not> spanContains q pos"
    by (simp add: find_None_iff)
  with None show ?thesis
    using assms by (simp add: GetQuery_eq scanQueries_find)
next
  case (Some q)
  then obtain i where "i < length (queries (doc s))"
    and "spanContains (queries (doc s) ! i) pos"
    and "q = queries (doc s) ! i"
    and "\<forall>j<i. \<not> spanContains (queries (doc s) ! j) pos"
    unfolding find_Some_iff by blast
  with Some show ?thesis
    using assms by (auto simp add: GetQuery_eq scanQueries_find)
qed

theorem GetQuery_first_in_closed_span_witness:
  "ctx \<lparr>ctx = 1\<rparr> \<notin> cancelled compiledDocument \<and>
   \<not> writer (mu (doc compiledDocument)) \<and> compilers (doc compiledDocument) = 0 \<and>
   GetQuery \<lparr>ctx = 1\<rparr> 15 compiledDocument =
     (Returns (Inr \<lparr>QPos = 12, Ast = Some \<lparr>RangeStart = 0, RangeEnd = 9\<rparr>\<rparr>),
      compiledDocument) \<and>
   GetQuery \<lparr>ctx = 1\<rparr> 5 compiledDocument = (Returns (Inl NotFound), compiledDocument) \<and>
   GetQuery \<lparr>ctx = 1\<rparr> 22 compiledDocument = (Returns (Inl NotFound), compiledDocument)"
  using GetQuery_first_in_closed_span [of "\<lparr>ctx = 1\<rparr>" compiledDocument 15]
    GetQuery_first_in_closed_span [of "\<lparr>ctx = 1\<rparr>" compiledDocument 5]
    GetQuery_first_in_closed_span [of "\<lparr>ctx = 1\<rparr>" compiledDocument 22]
  by (simp add: compiledDocument_def GetQuery_eq NotFound_def)

subsection \<open>C6: a version that does not increase\<close>

text \<open>
  Claim C6: when \<^verbatim>\<open>new\<close> is false and the new version is at most the stored one,
  \<^verbatim>\<open>SetContent\<close> fails with VersionNotIncreasing and the heap is the one before the
  call: content, version, position index, derived slots, token, cancelled contexts and
  started goroutines are unchanged and the lock is free again. (While another holder
  has the lock the call is suspended, the heap unchanged as well.)
\<close>

theorem SetContent_version_not_increasing:
  assumes "\<not> new" and "version' \<le> version (doc s)"
  shows "SetContent maxDocumentSize d serverLifetime content' version' new s =
           ((if writer (mu (doc s)) \<or> 0 < readers (mu (doc s)) then Blocks
             else Returns (Some VersionNotIncreasing)), s)"
  using assms
  by (simp add: SetContent_def Locked_eq setContentBody_def VersionNotIncreasing_def)

theorem SetContent_version_not_increasing_witness:
  "\<not> False \<and> (1::real) \<le> version (doc openedDocument) \<and>
   SetContent 1000 \<lparr>ctx = 1\<rparr> 0 ''up'' 1 False openedDocument =
     (Returns (Some VersionNotIncreasing), openedDocument)"
  using SetContent_version_not_increasing
          [of False 1 openedDocument 1000 "\<lparr>ctx = 1\<rparr>" 0 "''up''"]
  by (simp add: openedDocument_def)

subsection \<open>C7: a document that is too large\<close>

text \<open>
  Claim C7: when the new content is longer than the maximum document size,
  \<^verbatim>\<open>SetContent\<close> fails and the heap is the one before the call. The size is tested
  after the version: the failure is DocumentTooLarge unless the version test fails
  first, in which case it is VersionNotIncreasing. (While another holder has the lock
  the call is suspended, the heap unchanged as well.)
\<close>

theorem SetContent_too_large:
  assumes "maxDocumentSize < int (length content')"
  shows "SetContent maxDocumentSize d serverLifetime content' version' new s =
           ((if writer (mu (doc s)) \<or> 0 < readers (mu (doc s)) then Blocks
             else Returns (Some
               (if \<not> new \<and> version' \<le> version (doc s) then VersionNotIncreasing
                else DocumentTooLarge))), s)"
  using assms
  by (simp add: SetContent_def Locked_eq setContentBody_def VersionNotIncreasing_def
        DocumentTooLarge_def)

theorem SetContent_too_large_witness:
  "(3::int) < int (length ''rate'') \<and>
   SetContent 3 \<lparr>ctx = 1\<rparr> 0 ''rate'' 2 False openedDocument =
     (Returns (Some DocumentTooLarge), openedDocument) \<and>
   SetContent 3 \<lparr>ctx = 1\<rparr> 0 ''rate'' 1 False openedDocument =
     (Returns (Some VersionNotIncreasing), openedDocument)"
  using SetContent_too_large [of 3 "''rate''" "\<lparr>ctx = 1\<rparr>" 0 2 False openedDocument]
    SetContent_too_large [of 3 "''rate''" "\<lparr>ctx = 1\<rparr>" 0 1 False openedDocument]
  by (simp add: openedDocument_def)

subsection \<open>C8: a line that is out of range\<close>

text \<open>
  Claim C8 says that for every line outside the range from 1 to the number of lines,
  \<^verbatim>\<open>LineStartSafe\<close> and every conversion built on it return the error InvalidLine.
  \<^verbatim>\<open>PositionToProtocolPosition\<close> tests \<^verbatim>\<open>line < 1\<close> before the lookup ("Can happen
  when parsing empty files") and succeeds: for line 0 it returns the protocol position
  (0, 0), not an error.
\<close>

theorem PositionToProtocolPosition_line_0_counterexample:
  "\<not> (1 \<le> (0::int) \<and> 0 \<le> int (length (lines (posData (doc openedDocument))))) \<and>
   fst (PositionToProtocolPosition \<lparr>ctx = 1\<rparr>
          \<lparr>Filename = [], Offset = 0, Line = 0, Column = 0\<rparr> openedDocument) =
     Returns (Inr \<lparr>PLine = 0, Character = 0\<rparr>)"
  by (simp add: openedDocument_def PositionToProtocolPosition_def RLocked_eq)

text \<open>
  Claim C8, amended. For every line outside the range from 1 to the number of lines,
  \<^verbatim>\<open>LineStartSafe\<close> returns the error InvalidLine, and no conversion built on it
  panics: each returns an error value, but for \<^verbatim>\<open>PositionToProtocolPosition\<close> on a
  line below 1, which succeeds with (0, 0). On a live handle the error is InvalidLine
  (for \<^verbatim>\<open>YamlPositionToTokenPos\<close>, when the column is at least 1; a smaller column is
  an invalid position); on a cancelled handle it is Obsolete. (While a writer holds the
  lock a conversion is suspended.)
\<close>

theorem out_of_range_line_is_error_value:
  assumes "line < 1 \<or> int (length (lines (posData (doc s)))) < line"
  shows "LineStartSafe d s line = Inl (InvalidLine s line) \<and>
         ProtocolPositionToTokenPos d \<lparr>PLine = line - 1, Character = ch\<rparr> s =
           ((if writer (mu (doc s)) then Blocks
             else Returns (Inl (if ctx d \<in> cancelled s then Obsolete
                                else InvalidLine s line))), s) \<and>
         YamlPositionToTokenPos d (line - off) col off s =
           ((if writer (mu (doc s)) then Blocks
             else Returns (Inl (if ctx d \<in> cancelled s then Obsolete
                                else if col < 1 then ErrorString ''invalid position''
                                else InvalidLine s line))), s) \<and>
         PositionToProtocolPosition d
             \<lparr>Filename = f, Offset = ofs, Line = line, Column = col\<rparr> s =
           ((if writer (mu (doc s)) then Blocks
             else if ctx d \<in> cancelled s then Returns (Inl Obsolete)
             else if line < 1 then Returns (Inr \<lparr>PLine = 0, Character = 0\<rparr>)
             else Returns (Inl (InvalidLine s line))), s)"
proof -
  have 1: "LineStartSafe d t line = Inl (InvalidLine s line)"
    if "posData (doc t) = posData (doc s)" for t
    using assms that
    by (auto simp add: LineStartSafe_def LineStart_def recovered_def InvalidLine_def)
  show ?thesis
    by (simp add: ProtocolPositionToTokenPos_def YamlPositionToTokenPos_def
          PositionToProtocolPosition_def RLocked_eq 1 Obsolete_def)
qed

theorem out_of_range_line_is_error_value_witness:
  "(5 < (1::int) \<or> int (length (lines (posData (doc openedDocument)))) < 5) \<and>
   LineStartSafe \<lparr>ctx = 1\<rparr> openedDocument 5 = Inl (LineStartPanic (LineTooLarge 5 1)) \<and>
   fst (ProtocolPositionToTokenPos \<lparr>ctx = 1\<rparr> \<lparr>PLine = 4, Character = 0\<rparr> openedDocument) =
     Returns (Inl (LineStartPanic (LineTooLarge 5 1))) \<and>
   fst (YamlPositionToTokenPos \<lparr>ctx = 1\<rparr> 2 1 3 openedDocument) =
     Returns (Inl (LineStartPanic (LineTooLarge 5 1))) \<and>
   fst (PositionToProtocolPosition \<lparr>ctx = 1\<rparr>
          \<lparr>Filename = [], Offset = 0, Line = 5, Column = 1\<rparr> openedDocument) =
     Returns (Inl (LineStartPanic (LineTooLarge 5 1)))"
  using out_of_range_line_is_error_value
          [of 5 openedDocument "\<lparr>ctx = 1\<rparr>" 0 3 1 "[]" 0]
  by (simp add: openedDocument_def InvalidLine_def)

subsection \<open>C9: ApplyIncrementalChanges writes nothing\<close>

text \<open>
  Claim C9: \<^verbatim>\<open>ApplyIncrementalChanges\<close> only computes its result. For every handle,
  batch of edits, version and range mapper, and however the call ends (the spliced
  text, an error, a panic, or suspended at the lock), the heap after the call is the
  heap before it: content, version, position index, derived slots and token are
  unchanged, and the read lock is released.
\<close>

theorem ApplyIncrementalChanges_frame:
  "snd (ApplyIncrementalChanges RangeSpan d changes version' s) = s"
  by (simp add: ApplyIncrementalChanges_def RLocked_eq)

subsection \<open>C10: a position on a line below 1\<close>

text \<open>
  Claim C10: for a position whose line is less than 1, \<^verbatim>\<open>PositionToProtocolPosition\<close>
  returns the protocol position (0, 0) and never an invalid-line error: the line is
  not looked up. As for every getter, the handle's token is tested first (a cancelled
  handle gets Obsolete) and the call is suspended while a writer holds the lock.
\<close>

theorem PositionToProtocolPosition_line_below_1:
  assumes "Line pos < 1"
  shows "PositionToProtocolPosition d pos s =
           ((if writer (mu (doc s)) then Blocks
             else if ctx d \<in> cancelled s then Returns (Inl Obsolete)
             else Returns (Inr \<lparr>PLine = 0, Character = 0\<rparr>)), s)"
  using assms by (simp add: PositionToProtocolPosition_def RLocked_eq Obsolete_def)

theorem PositionToProtocolPosition_line_below_1_witness:
  "Line \<lparr>Filename = [], Offset = 0, Line = - 2, Column = 7\<rparr> < 1 \<and>
   PositionToProtocolPosition \<lparr>ctx = 1\<rparr>
       \<lparr>Filename = [], Offset = 0, Line = - 2, Column = 7\<rparr> openedDocument =
     (Returns (Inr \<lparr>PLine = 0, Character = 0\<rparr>), openedDocument)"
  using PositionToProtocolPosition_line_below_1
          [of "\<lparr>Filename = [], Offset = 0, Line = - 2, Column = 7\<rparr>" "\<lparr>ctx = 1\<rparr>"
             openedDocument]
  by (simp add: openedDocument_def)

end
